theory Spec2Isabelle
  imports Main "HOL-Library.Word" "HOL-Library.AList"
begin

unbundle bit_operations_syntax

section \<open>Values that cross the package boundary\<close>

text \<open>
  The package \<open>server\<close> (file \<open>server/tushandlers.go\<close>) sits between the HTTP router and
  the tus upload handler. Its functions are embedded below one by one, with the
  source's names. Go values are modelled as follows: a \<open>map[string]string\<close> is an
  association list (its \<open>range\<close> loop walks the keys of the list), an \<open>error\<close> is a
  value of the datatype \<open>go_error\<close> and a \<open>nil\<close> error is \<open>None\<close>, the mutated
  \<open>*http.Request\<close> is passed in and returned, and every log call adds an entry to a
  list that is returned with the result.
\<close>

datatype json =
    JString string
  | JNumber int
  | JBool bool
  | JNull
  | JArray "json list"
  | JObject "(string \<times> json) list"

text \<open>
  The error values the file creates or inspects. \<open>Errorf\<close> keeps the format string
  and the arguments of \<open>fmt.Errorf\<close> apart, \<open>ValidationError\<close> is
  \<open>*jwt.ValidationError\<close> with its fields \<open>Inner\<close> and \<open>Errors\<close>, and \<open>OtherError\<close>
  stands for any error value of a library that the file never tells apart.
\<close>

datatype go_error =
    Errorf string "json option list"
  | ErrInvalidXForwardedFor
  | AddrError string string
  | UnknownIssuerError string
  | ErrSignatureInvalid
  | ValidationError "go_error option" "32 word"
  | OtherError string

datatype log_level = DebugLevel | WarnLevel | ErrorLevel

datatype log_field = Err go_error | Str string string

datatype log_entry =
    Log log_level "log_field list" string
  | Printf string "string list"

type_synonym metadata = "(string \<times> string) list"

definition meta_keys :: "metadata \<Rightarrow> string list" where
  "meta_keys m = map fst m"

definition meta_get :: "metadata \<Rightarrow> string \<Rightarrow> string" where
  \<comment> \<open>\<open>m[k]\<close> of a Go map: the zero value (the empty string) for a missing key\<close>
  "meta_get m k = (case map_of m k of None \<Rightarrow> [] | Some v \<Rightarrow> v)"

definition meta_set :: "metadata \<Rightarrow> string \<Rightarrow> string \<Rightarrow> metadata" where
  \<comment> \<open>\<open>m[k] = v\<close>\<close>
  "meta_set m k v = AList.update k v m"

record request =
  RemoteAddr :: string
  Header :: "string \<rightharpoonup> string list"

definition Header_Get :: "(string \<rightharpoonup> string list) \<Rightarrow> string \<Rightarrow> string" where
  \<comment> \<open>\<open>http.Header.Get\<close>: the first value of the key, or the empty string\<close>
  "Header_Get h k = (case h k of Some (v # _) \<Rightarrow> v | _ \<Rightarrow> [])"

definition Header_Set :: "(string \<rightharpoonup> string list) \<Rightarrow> string \<Rightarrow> string \<Rightarrow> (string \<rightharpoonup> string list)" where
  "Header_Set h k v = h(k \<mapsto> [v])"

type_synonym IP = "8 word list"

record IPNet =
  IPNet_IP :: IP
  IPNet_Mask :: "8 word list"

datatype SigningMethod =
    SigningMethodHMAC string
  | SigningMethodRSA string
  | SigningMethodRSAPSS string
  | SigningMethodECDSA string
  | SigningMethodNone

datatype Claims =
    MapClaims "string \<rightharpoonup> json"
  | StandardClaims

record Token =
  Method :: SigningMethod
  Token_Header :: "string \<rightharpoonup> json"
  Token_Claims :: Claims
  Signature :: string
  Valid :: bool

text \<open>
  What the file calls and does not define. \<open>parseMeta\<close> and \<open>serializeMeta\<close> belong to
  the package but to another file; the call sites fix their types (a header value to a
  map, a map to a header value, no error result). The others are functions of Go's
  standard library (\<open>net.SplitHostPort\<close>, \<open>net.ParseIP\<close>, \<open>net.IP.String\<close>,
  \<open>net.IPNet.Contains\<close>, \<open>strings.TrimSpace\<close>) and of the JWT library (the unverified
  parse of a token into its parts, the check of the registered claims, and
  \<open>SigningMethod.Verify\<close>). Every function below takes them as the record \<open>env\<close>, so
  each theorem holds whatever they compute.
\<close>

record env =
  parseMeta :: "string \<Rightarrow> metadata"
  serializeMeta :: "metadata \<Rightarrow> string"
  SplitHostPort :: "string \<Rightarrow> go_error + string \<times> string"
  ParseIP :: "string \<Rightarrow> IP option"
  IP_String :: "IP \<Rightarrow> string"
  Contains :: "IPNet \<Rightarrow> IP option \<Rightarrow> bool"
  TrimSpace :: "string \<Rightarrow> string"
  ParseUnverified :: "string \<Rightarrow> go_error + Token \<times> string \<times> string"
  ClaimsValid :: "Claims \<Rightarrow> go_error option"
  Verify :: "SigningMethod \<Rightarrow> string \<Rightarrow> string \<Rightarrow> string \<Rightarrow> go_error option"

record UploadServer =
  TrustedReverseProxyRanges :: "IPNet list"
  JwtSecretsByIssuer :: "string \<rightharpoonup> string"

section \<open>The resolver of the remote address\<close>

fun Split :: "string \<Rightarrow> char \<Rightarrow> string list" where
  \<comment> \<open>\<open>strings.Split\<close> with a separator of one byte\<close>
  "Split [] sep = [[]]"
| "Split (c # cs) sep =
     (if c = sep then [] # Split cs sep
      else (case Split cs sep of [] \<Rightarrow> [[c]] | p # ps \<Rightarrow> (c # p) # ps))"

fun remoteIPisTrusted_range :: "env \<Rightarrow> IPNet list \<Rightarrow> IP option \<Rightarrow> bool" where
  "remoteIPisTrusted_range E [] remoteIP = False"
| "remoteIPisTrusted_range E (trustedNet # rest) remoteIP =
     (if Contains E trustedNet remoteIP then True
      else remoteIPisTrusted_range E rest remoteIP)"

definition remoteIPisTrusted :: "env \<Rightarrow> UploadServer \<Rightarrow> IP option \<Rightarrow> bool" where
  "remoteIPisTrusted E serv remoteIP =
     remoteIPisTrusted_range E (TrustedReverseProxyRanges serv) remoteIP"

definition getDirectOrForwardedRemoteIP ::
  "env \<Rightarrow> UploadServer \<Rightarrow> request \<Rightarrow> log_entry list \<times> (go_error + string)" where
  "getDirectOrForwardedRemoteIP E serv req =
     (case SplitHostPort E (RemoteAddr req) of
        Inl err \<Rightarrow>
          ([Log ErrorLevel [Err err] ''Could not split address into host and port''], Inl err)
      | Inr (remoteIP, port) \<Rightarrow>
          (let forwardedFor = Header_Get (Header req) ''X-Forwarded-For'' in
           if forwardedFor \<noteq> [] then
             (if remoteIPisTrusted E serv (ParseIP E remoteIP) then
                (let parts = Split forwardedFor (CHR '','');
                     forwardedForClient = TrimSpace E (hd parts)
                 in case ParseIP E forwardedForClient of
                      None \<Rightarrow>
                        ([Log ErrorLevel
                            [Err ErrInvalidXForwardedFor, Str ''client'' forwardedForClient,
                             Str ''remoteIP'' remoteIP]
                            ''Couldn't use trusted X-Forwarded-For header''],
                         Inl ErrInvalidXForwardedFor)
                    | Some forwardedForIP \<Rightarrow> ([], Inr (IP_String E forwardedForIP)))
              else
                ([Log WarnLevel
                    [Str ''X-Forwarded-For'' forwardedFor, Str ''remoteIP'' remoteIP]
                    ''Untrusted remote attempted to override stored IP''],
                 Inr remoteIP))
           else ([], Inr remoteIP)))"

section \<open>The remote address in the metadata\<close>

definition uploadMetadataHeader :: string where
  "uploadMetadataHeader = ''Upload-Metadata''"

definition remoteIPKey :: string where
  "remoteIPKey = ''RemoteIP''"

fun rangeRemoteIP :: "string list \<Rightarrow> go_error option" where
  \<comment> \<open>the loop of \<open>addRemoteIPToMetadata\<close> over the keys\<close>
  "rangeRemoteIP [] = None"
| "rangeRemoteIP (k # ks) =
     (if k = remoteIPKey
      then Some (Errorf (''Metadata field '' @ remoteIPKey @ '' cannot be set by client'') [])
      else rangeRemoteIP ks)"

definition addRemoteIPToMetadata ::
  "env \<Rightarrow> UploadServer \<Rightarrow> request \<Rightarrow> log_entry list \<times> request \<times> go_error option" where
  "addRemoteIPToMetadata E serv req =
     (let metadata = parseMeta E (Header_Get (Header req) uploadMetadataHeader) in
      case rangeRemoteIP (meta_keys metadata) of
        Some err \<Rightarrow> ([], req, Some err)
      | None \<Rightarrow>
          (case getDirectOrForwardedRemoteIP E serv req of
             (logs, Inl err) \<Rightarrow> (logs, req, Some err)
           | (logs, Inr remoteIP) \<Rightarrow>
               (logs,
                req\<lparr>Header := Header_Set (Header req) uploadMetadataHeader
                                (serializeMeta E (meta_set metadata remoteIPKey remoteIP))\<rparr>,
                None)))"

section \<open>The bearer token\<close>

fun is_HMAC :: "SigningMethod \<Rightarrow> bool" where
  \<comment> \<open>the type assertion \<open>token.Method.(*jwt.SigningMethodHMAC)\<close>\<close>
  "is_HMAC (SigningMethodHMAC alg) = True"
| "is_HMAC _ = False"

fun is_JString :: "json option \<Rightarrow> bool" where
  \<comment> \<open>the type assertion \<open>claims[k].(string)\<close>\<close>
  "is_JString (Some (JString s)) = True"
| "is_JString _ = False"

definition getSecretForToken :: "UploadServer \<Rightarrow> Token \<Rightarrow> go_error + string" where
  "getSecretForToken serv token =
     (case Method token of
        SigningMethodHMAC _ \<Rightarrow>
          (case Token_Claims token of
             MapClaims claims \<Rightarrow>
               (case claims ''iss'' of
                  None \<Rightarrow> Inl (Errorf ''Issuer field 'iss' missing from JWT'' [])
                | Some issuer \<Rightarrow>
                    (case issuer of
                       JString issuerStr \<Rightarrow>
                         (case JwtSecretsByIssuer serv issuerStr of
                            None \<Rightarrow> Inl (UnknownIssuerError issuerStr)
                          | Some secret \<Rightarrow> Inr secret)
                     | _ \<Rightarrow> Inl (Errorf ''Failed to coerce issuer to string'' [])))
           | _ \<Rightarrow> Inl (Errorf ''Failed to get claims'' []))
      | _ \<Rightarrow> Inl (Errorf ''Unexpected signing method: %v'' [Token_Header token ''alg'']))"

text \<open>
  \<open>jwt.Parse\<close> is the JWT library's: it splits and decodes the token
  (\<open>ParseUnverified\<close>, giving the token, the signing string and the signature part),
  asks the key function for the key and wraps its error in a \<open>ValidationError\<close> flagged
  unverifiable, checks the registered claims, verifies the signature with the token's
  method, and returns the token marked valid when no flag is set. The three steps
  that need JSON, the clock or a hash are fields of \<open>env\<close>; the control flow
  around them is written out, since \<open>postFile\<close> tells the resulting errors apart.
\<close>

definition ValidationErrorUnverifiable :: "32 word" where
  "ValidationErrorUnverifiable = push_bit 1 1"

definition ValidationErrorSignatureInvalid :: "32 word" where
  "ValidationErrorSignatureInvalid = push_bit 2 1"

definition ValidationErrorClaimsInvalid :: "32 word" where
  "ValidationErrorClaimsInvalid = push_bit 9 1"

definition jwt_Parse :: "env \<Rightarrow> string \<Rightarrow> (Token \<Rightarrow> go_error + string) \<Rightarrow> go_error + Token" where
  "jwt_Parse E tokenString keyFunc =
     (case ParseUnverified E tokenString of
        Inl err \<Rightarrow> Inl err
      | Inr (token, signingString, sig) \<Rightarrow>
          (case keyFunc token of
             Inl err \<Rightarrow>
               (case err of
                  ValidationError inner errors \<Rightarrow> Inl err
                | _ \<Rightarrow> Inl (ValidationError (Some err) ValidationErrorUnverifiable))
           | Inr key \<Rightarrow>
               (let (inner, errors) =
                      (case ClaimsValid E (Token_Claims token) of
                         None \<Rightarrow> (None, 0)
                       | Some err \<Rightarrow>
                           (case err of
                              ValidationError i e \<Rightarrow> (i, e)
                            | _ \<Rightarrow> (Some err, ValidationErrorClaimsInvalid)));
                    (inner, errors) =
                      (case Verify E (Method token) signingString sig key of
                         None \<Rightarrow> (inner, errors)
                       | Some err \<Rightarrow> (Some err, errors OR ValidationErrorSignatureInvalid))
                in if errors = 0 then Inr (token\<lparr>Signature := sig, Valid := True\<rparr>)
                   else Inl (ValidationError inner errors))))"

datatype 'a outcome = Returns 'a | Panics

fun rangeAccountIssuer :: "string list \<Rightarrow> go_error option" where
  \<comment> \<open>the loop of \<open>processJwt\<close> over the keys; a Go \<open>case\<close> does not fall through,
      so the empty \<open>case "account":\<close> goes on with the next key\<close>
  "rangeAccountIssuer [] = None"
| "rangeAccountIssuer (k # ks) =
     (if k = ''account'' then rangeAccountIssuer ks
      else if k = ''issuer''
      then Some (Errorf ''Metadata field %#v cannot be set by client'' [Some (JString k)])
      else rangeAccountIssuer ks)"

definition processJwt ::
  "env \<Rightarrow> UploadServer \<Rightarrow> request \<Rightarrow> (log_entry list \<times> request \<times> go_error option) outcome" where
  "processJwt E serv req =
     (let metadata = parseMeta E (Header_Get (Header req) ''Upload-Metadata'') in
      case rangeAccountIssuer (meta_keys metadata) of
        Some err \<Rightarrow> Returns ([], req, Some err)
      | None \<Rightarrow>
          (let tokenString = meta_get metadata ''extjwt'' in
           if tokenString = [] then Returns ([], req, None)
           else
             (case jwt_Parse E tokenString (getSecretForToken serv) of
                Inl err \<Rightarrow> Returns ([], req, Some err)
              | Inr token \<Rightarrow>
                  (case Token_Claims token of
                     MapClaims claims \<Rightarrow>
                       (if \<not> Valid token then Returns ([], req, None)
                        else
                          (case claims ''iss'' of
                             Some (JString issuer) \<Rightarrow>
                               (case claims ''account'' of
                                  Some (JString account) \<Rightarrow>
                                    (let metadata = meta_set metadata ''issuer'' issuer;
                                         metadata = meta_set metadata ''account'' account
                                     in Returns
                                          ([Printf ''metadata updated: account=%v issuer=%v\<newline>''
                                              [account, issuer]],
                                           req\<lparr>Header := Header_Set (Header req) ''Upload-Metadata''
                                                           (serializeMeta E metadata)\<rparr>,
                                           None))
                                | _ \<Rightarrow> Returns ([], req, None))
                           | _ \<Rightarrow> Panics))
                   | _ \<Rightarrow> Returns ([], req, None)))))"

section \<open>The handler of an upload creation\<close>

definition isFatalJwtError :: "go_error \<Rightarrow> bool" where
  "isFatalJwtError err =
     (case err of
        ValidationError (Some (UnknownIssuerError issuer)) errors \<Rightarrow> False
      | _ \<Rightarrow> True)"

datatype ErrorType = ErrorTypePrivate | ErrorTypePublic

datatype body = Sprintf string "go_error list"

text \<open>
  What \<open>postFile\<close> does with the request in the end: one of gin's aborts (the status,
  the error, and the error type when the source sets one), or the call of the tus
  handler's \<open>PostFile\<close> with the request as it then is.
\<close>

datatype action =
    AbortWithError nat go_error "ErrorType option"
  | AbortWithStatusJSON nat body go_error ErrorType
  | HandlerPostFile
  | Panicked

definition StatusBadRequest :: nat where "StatusBadRequest = 400"
definition StatusUnauthorized :: nat where "StatusUnauthorized = 401"
definition StatusNotAcceptable :: nat where "StatusNotAcceptable = 406"
definition StatusInternalServerError :: nat where "StatusInternalServerError = 500"

definition postFile ::
  "env \<Rightarrow> UploadServer \<Rightarrow> request \<Rightarrow> log_entry list \<times> request \<times> action" where
  "postFile E serv req =
     (case addRemoteIPToMetadata E serv req of
        (logs, req, Some err) \<Rightarrow>
          (case err of
             AddrError why addr \<Rightarrow>
               (logs, req, AbortWithError StatusInternalServerError err (Some ErrorTypePrivate))
           | _ \<Rightarrow> (logs, req, AbortWithError StatusNotAcceptable err None))
      | (logs, req, None) \<Rightarrow>
          (case processJwt E serv req of
             Panics \<Rightarrow> (logs, req, Panicked)
           | Returns (out, req, None) \<Rightarrow> (logs @ out, req, HandlerPostFile)
           | Returns (out, req, Some err) \<Rightarrow>
               (if isFatalJwtError err then
                  (case err of
                     ValidationError (Some ErrSignatureInvalid) errors \<Rightarrow>
                       (logs @ out, req,
                        AbortWithStatusJSON StatusUnauthorized
                          (Sprintf ''Failed to process EXTJWT: %s. Configured secret may be incorrect.''
                             [err])
                          err ErrorTypePublic)
                   | _ \<Rightarrow>
                       (logs @ out, req,
                        AbortWithError StatusBadRequest err (Some ErrorTypePublic)))
                else
                  (logs @ out @ [Log WarnLevel [Err err] ''Failed to process EXTJWT''], req,
                   HandlerPostFile))))"

fun status_of :: "action \<Rightarrow> nat option" where
  \<comment> \<open>the status the middleware itself answers with, if it answers\<close>
  "status_of (AbortWithError code err ty) = Some code"
| "status_of (AbortWithStatusJSON code b err ty) = Some code"
| "status_of HandlerPostFile = None"
| "status_of Panicked = None"

section \<open>The recorder of the uploader's address\<close>

datatype HookType =
    HookPostFinish | HookPostTerminate | HookPostReceive | HookPostCreate | HookPreCreate

record FileInfo =
  ID :: string
  MetaData :: metadata

record TusEvent =
  Type :: HookType
  Info :: FileInfo

definition uploaderIPQuery :: string where
  \<comment> \<open>the raw string of the source, with its line feeds (\<open>0x0A\<close>) and tabs (\<open>0x09\<close>)\<close>
  "uploaderIPQuery =
     CHR 0x0A # replicate 5 (CHR 0x09) @ ''UPDATE uploads'' @
     CHR 0x0A # replicate 5 (CHR 0x09) @ ''SET uploader_ip = ?'' @
     CHR 0x0A # replicate 5 (CHR 0x09) @ ''WHERE id = ?'' @
     CHR 0x0A # replicate 4 (CHR 0x09)"

text \<open>
  \<open>db.UpdateRow\<close> is a function of another package of the repository; it is the
  parameter \<open>UpdateRow\<close> here, from a database, a query and its arguments to the
  database afterwards and an error. The channel is the list of the events received
  before it is closed. Each write runs in a goroutine of its own in the source; the
  model performs it at the event that starts it.
\<close>

definition recordUploaderIP ::
  "('db \<Rightarrow> string \<Rightarrow> string list \<Rightarrow> 'db \<times> go_error option) \<Rightarrow>
   'db \<times> log_entry list \<Rightarrow> TusEvent \<Rightarrow> 'db \<times> log_entry list" where
  \<comment> \<open>the function literal started by \<open>go\<close>\<close>
  "recordUploaderIP UpdateRow st event =
     (let ip = meta_get (MetaData (Info event)) ''RemoteIP'';
          logs = snd st @
            [Log DebugLevel [Str ''id'' (ID (Info event)), Str ''ip'' ip] ''Recording uploader IP''];
          (db, err) = UpdateRow (fst st) uploaderIPQuery [ip, ID (Info event)]
      in case err of
           None \<Rightarrow> (db, logs)
         | Some e \<Rightarrow> (db, logs @ [Log ErrorLevel [Err e] ''Failed to record uploader IP'']))"

fun ipRecorder ::
  "('db \<Rightarrow> string \<Rightarrow> string list \<Rightarrow> 'db \<times> go_error option) \<Rightarrow>
   'db \<times> log_entry list \<Rightarrow> TusEvent list \<Rightarrow> 'db \<times> log_entry list" where
  "ipRecorder UpdateRow st [] = st"
| "ipRecorder UpdateRow st (event # channel) =
     ipRecorder UpdateRow
       (if Type event = HookPostCreate then recordUploaderIP UpdateRow st event else st)
       channel"

section \<open>The metadata header\<close>

text \<open>
  Modelled from the spec: \<open>parseMeta\<close> and \<open>serializeMeta\<close>, which the package defines
  outside \<open>tushandlers.go\<close>. The header value is a list of entries separated by
  commas; an entry is a key, a space and the base64 encoding of the value, and an entry
  with an empty value may consist of the key alone; an empty header gives an empty
  map. \<open>parseMeta\<close> returns a map and no error at its call sites, so an entry that
  cannot be decoded adds nothing to the map.
\<close>

definition b64chars :: string where
  "b64chars = ''ABCDEFGHIJKLMNOPQRSTUVWXYZabcdefghijklmnopqrstuvwxyz0123456789+/''"

fun b64enc :: "nat list \<Rightarrow> string" where
  "b64enc [] = []"
| "b64enc [a] =
     [b64chars ! (a div 4), b64chars ! (a mod 4 * 16), CHR ''='', CHR ''='']"
| "b64enc [a, b] =
     [b64chars ! (a div 4), b64chars ! (a mod 4 * 16 + b div 16),
      b64chars ! (b mod 16 * 4), CHR ''='']"
| "b64enc (a # b # c # rest) =
     [b64chars ! (a div 4), b64chars ! (a mod 4 * 16 + b div 16),
      b64chars ! (b mod 16 * 4 + c div 64), b64chars ! (c mod 64)] @ b64enc rest"

definition b64val :: "char \<Rightarrow> nat option" where
  "b64val c =
     (let n = (of_char c :: nat) in
      if 65 \<le> n \<and> n \<le> 90 then Some (n - 65)
      else if 97 \<le> n \<and> n \<le> 122 then Some (n - 71)
      else if 48 \<le> n \<and> n \<le> 57 then Some (n + 4)
      else if c = CHR ''+'' then Some 62
      else if c = CHR ''/'' then Some 63
      else None)"

fun b64dec :: "string \<Rightarrow> nat list option" where
  "b64dec [] = Some []"
| "b64dec (a # b # c # d # rest) =
     (case (b64val a, b64val b) of
        (Some x, Some y) \<Rightarrow>
          (if rest = [] \<and> c = CHR ''='' \<and> d = CHR ''='' then Some [x * 4 + y div 16]
           else
             (case b64val c of
                None \<Rightarrow> None
              | Some z \<Rightarrow>
                  (if rest = [] \<and> d = CHR ''=''
                   then Some [x * 4 + y div 16, y mod 16 * 16 + z div 4]
                   else
                     (case b64val d of
                        None \<Rightarrow> None
                      | Some w \<Rightarrow>
                          (case b64dec rest of
                             None \<Rightarrow> None
                           | Some bytes \<Rightarrow>
                               Some ([x * 4 + y div 16, y mod 16 * 16 + z div 4,
                                      z mod 4 * 64 + w] @ bytes))))))
      | _ \<Rightarrow> None)"
| "b64dec _ = None"

definition is_space :: "char \<Rightarrow> bool" where
  "is_space c = (c \<in> set [CHR 0x09, CHR 0x0A, CHR 0x0B, CHR 0x0C, CHR 0x0D, CHR 0x20])"

definition trim_ascii :: "string \<Rightarrow> string" where
  "trim_ascii s = rev (dropWhile is_space (rev (dropWhile is_space s)))"

definition parse_entry :: "metadata \<Rightarrow> string \<Rightarrow> metadata" where
  "parse_entry meta element =
     (case Split (trim_ascii element) (CHR '' '') of
        [key] \<Rightarrow> (if key = [] then meta else meta_set meta key [])
      | [key, enc] \<Rightarrow>
          (if key = [] then meta
           else (case b64dec enc of
                   None \<Rightarrow> meta
                 | Some bytes \<Rightarrow> meta_set meta key (map char_of bytes)))
      | _ \<Rightarrow> meta)"

definition spec_parseMeta :: "string \<Rightarrow> metadata" where
  "spec_parseMeta header = foldl parse_entry [] (Split header (CHR '',''))"

fun join_comma :: "string list \<Rightarrow> string" where
  "join_comma [] = []"
| "join_comma [e] = e"
| "join_comma (e # es) = e @ '','' @ join_comma es"

definition spec_serializeMeta :: "metadata \<Rightarrow> string" where
  "spec_serializeMeta meta =
     join_comma
       (map (\<lambda>(key, v). if v = [] then key else key @ '' '' @ b64enc (map of_char v)) meta)"

section \<open>An environment to run the handler in\<close>

text \<open>
  The functions above are run on concrete requests in the environment \<open>ipv4_env\<close>: the
  codec of the previous section; addresses of the form \<open>a.b.c.d:port\<close>, dotted quads
  of four bytes, and networks given by an address and a mask; and tokens of three
  parts \<open>alg.iss/account.sig\<close> in clear, whose signature is the reverse of the key
  followed by the signing string, without the dots, standing for the JSON and the
  HMAC of a real token; a signature part that is not base64url text fails to decode.
\<close>

definition ipv4_SplitHostPort :: "string \<Rightarrow> go_error + string \<times> string" where
  "ipv4_SplitHostPort hostport =
     (if CHR '':'' \<in> set hostport
      then Inr (rev (tl (dropWhile (\<lambda>c. c \<noteq> CHR '':'') (rev hostport))),
                rev (takeWhile (\<lambda>c. c \<noteq> CHR '':'') (rev hostport)))
      else Inl (AddrError ''missing port in address'' hostport))"

definition dec_val :: "string \<Rightarrow> nat option" where
  "dec_val s =
     (if s \<noteq> [] \<and> length s \<le> 3 \<and> list_all (\<lambda>c. 48 \<le> (of_char c :: nat) \<and> (of_char c :: nat) \<le> 57) s
      then (let n = foldl (\<lambda>n c. 10 * n + ((of_char c :: nat) - 48)) 0 s
            in if n \<le> 255 then Some n else None)
      else None)"

definition ipv4_ParseIP :: "string \<Rightarrow> IP option" where
  "ipv4_ParseIP s =
     (let parts = map dec_val (Split s (CHR ''.''))
      in if length parts = 4 \<and> list_all (\<lambda>p. p \<noteq> None) parts
         then Some (map (\<lambda>p. of_nat (the p)) parts) else None)"

definition dec_str :: "nat \<Rightarrow> string" where
  "dec_str n =
     (if n < 10 then [char_of (48 + n)]
      else if n < 100 then [char_of (48 + n div 10), char_of (48 + n mod 10)]
      else [char_of (48 + n div 100), char_of (48 + n div 10 mod 10), char_of (48 + n mod 10)])"

fun join_dot :: "string list \<Rightarrow> string" where
  "join_dot [] = []"
| "join_dot [e] = e"
| "join_dot (e # es) = e @ ''.'' @ join_dot es"

definition ipv4_IP_String :: "IP \<Rightarrow> string" where
  "ipv4_IP_String ip = join_dot (map (\<lambda>b. dec_str (unat b)) ip)"

definition ipv4_Contains :: "IPNet \<Rightarrow> IP option \<Rightarrow> bool" where
  "ipv4_Contains n ip =
     (case ip of
        None \<Rightarrow> False
      | Some a \<Rightarrow>
          length a = length (IPNet_IP n) \<and>
          map2 (AND) (IPNet_IP n) (IPNet_Mask n) = map2 (AND) a (IPNet_Mask n))"

definition clear_method :: "string \<Rightarrow> SigningMethod option" where
  "clear_method alg =
     (if alg \<in> set [''HS256'', ''HS384'', ''HS512''] then Some (SigningMethodHMAC alg)
      else if alg \<in> set [''RS256'', ''RS384'', ''RS512''] then Some (SigningMethodRSA alg)
      else if alg \<in> set [''ES256'', ''ES384'', ''ES512''] then Some (SigningMethodECDSA alg)
      else if alg = ''none'' then Some SigningMethodNone
      else None)"

definition clear_claims :: "string \<Rightarrow> (string \<rightharpoonup> json)" where
  "clear_claims payload =
     (case Split payload (CHR ''/'') of
        [iss] \<Rightarrow> (if iss = [] then Map.empty else [''iss'' \<mapsto> JString iss])
      | [iss, account] \<Rightarrow> [''iss'' \<mapsto> JString iss, ''account'' \<mapsto> JString account]
      | _ \<Rightarrow> Map.empty)"

definition clear_token :: "SigningMethod \<Rightarrow> string \<Rightarrow> string \<Rightarrow> Token" where
  "clear_token m alg payload =
     \<lparr>Method = m, Token_Header = [''alg'' \<mapsto> JString alg],
      Token_Claims = MapClaims (clear_claims payload), Signature = [], Valid = False\<rparr>"

definition clear_ParseUnverified :: "string \<Rightarrow> go_error + Token \<times> string \<times> string" where
  "clear_ParseUnverified tokenString =
     (case Split tokenString (CHR ''.'') of
        [alg, payload, sig] \<Rightarrow>
          (case clear_method alg of
             None \<Rightarrow> Inl (ValidationError None ValidationErrorUnverifiable)
           | Some m \<Rightarrow> Inr (clear_token m alg payload, alg @ ''.'' @ payload, sig))
      | _ \<Rightarrow> Inl (ValidationError None 1))"

definition is_base64url :: "string \<Rightarrow> bool" where
  \<comment> \<open>a segment that decodes: letters, digits, \<open>-\<close> and \<open>_\<close>, and no single character
      left over after the groups of four\<close>
  "is_base64url seg =
     (list_all (\<lambda>c. (65 \<le> (of_char c :: nat) \<and> (of_char c :: nat) \<le> 90)
                    \<or> (97 \<le> (of_char c :: nat) \<and> (of_char c :: nat) \<le> 122)
                    \<or> (48 \<le> (of_char c :: nat) \<and> (of_char c :: nat) \<le> 57)
                    \<or> c = CHR ''-'' \<or> c = CHR ''_'') seg
      \<and> length seg mod 4 \<noteq> 1)"

definition clear_Verify :: "SigningMethod \<Rightarrow> string \<Rightarrow> string \<Rightarrow> string \<Rightarrow> go_error option" where
  \<comment> \<open>as \<open>SigningMethodHMAC.Verify\<close>: the error of decoding the signature segment
      comes before the comparison, whose failure is \<open>ErrSignatureInvalid\<close>\<close>
  "clear_Verify m signingString sig key =
     (case m of
        SigningMethodHMAC alg \<Rightarrow>
          (if \<not> is_base64url sig then Some (OtherError ''illegal base64 data'')
           else if sig = rev (filter (\<lambda>c. c \<noteq> CHR ''.'') (key @ signingString)) then None
           else Some ErrSignatureInvalid)
      | _ \<Rightarrow> Some (OtherError ''key is of invalid type''))"

definition ipv4_env :: env where
  "ipv4_env =
     \<lparr>parseMeta = spec_parseMeta, serializeMeta = spec_serializeMeta,
      SplitHostPort = ipv4_SplitHostPort, ParseIP = ipv4_ParseIP,
      IP_String = ipv4_IP_String, Contains = ipv4_Contains, TrimSpace = trim_ascii,
      ParseUnverified = clear_ParseUnverified, ClaimsValid = (\<lambda>claims. None),
      Verify = clear_Verify\<rparr>"

text \<open>
  A server that trusts the proxies of \<open>10.0.0.0/8\<close> and knows the issuer \<open>kiwi\<close>.
\<close>

definition demo_serv :: UploadServer where
  "demo_serv =
     \<lparr>TrustedReverseProxyRanges = [\<lparr>IPNet_IP = [10, 0, 0, 0], IPNet_Mask = [255, 0, 0, 0]\<rparr>],
      JwtSecretsByIssuer = [''kiwi'' \<mapsto> ''s3cret'']\<rparr>"

definition mk_request :: "string \<Rightarrow> (string \<times> string) list \<Rightarrow> request" where
  "mk_request addr headers =
     \<lparr>RemoteAddr = addr, Header = map_of (map (\<lambda>(k, v). (k, [v])) headers)\<rparr>"

text \<open>
  Modelled from the spec: \<open>db.UpdateRow\<close> on the table of uploads, which the
  repository defines in its package \<open>db\<close>. An upload record is identified by its ID
  and has a mutable field for the uploader's address; the update sets that field of
  the record with the given ID.
\<close>

definition spec_UpdateRow ::
  "(string \<times> string) list \<Rightarrow> string \<Rightarrow> string list \<Rightarrow> (string \<times> string) list \<times> go_error option" where
  "spec_UpdateRow uploads query args =
     (case args of
        [ip, upload_id] \<Rightarrow>
          (if query = uploaderIPQuery \<and> upload_id \<in> set (map fst uploads)
           then (AList.update upload_id ip uploads, None)
           else (uploads, Some (OtherError ''no rows affected'')))
      | _ \<Rightarrow> (uploads, Some (OtherError ''wrong number of arguments'')))"

section \<open>Requests and events to run\<close>

text \<open>
  The metadata values are \<open>1.1.1.1\<close>, \<open>admin\<close> and \<open>a.txt\<close> in base64, and the five
  tokens \<open>RS256.kiwi/alice.bad\<close>, \<open>HS256.other/alice.bad\<close>, \<open>HS256.kiwi/alice.bad\<close>,
  \<open>HS256.kiwi/alice.!!!\<close> and
  \<open>HS256.kiwi.iwik652SHterc3s\<close>; the last one is signed with the secret of \<open>kiwi\<close>
  and has no account.
\<close>

definition req_forged_ip :: request where
  "req_forged_ip =
     mk_request ''1.2.3.4:5555'' [(''Upload-Metadata'', ''RemoteIP MS4xLjEuMQ=='')]"

definition req_forged_account :: request where
  "req_forged_account =
     mk_request ''1.2.3.4:5555'' [(''Upload-Metadata'', ''account YWRtaW4='')]"

definition req_proxied :: request where
  "req_proxied =
     mk_request ''10.0.0.1:4000''
       [(''Upload-Metadata'', ''filename YS50eHQ=''), (''X-Forwarded-For'', ''9.9.9.9, 8.8.8.8'')]"

definition req_proxied_garbage :: request where
  "req_proxied_garbage =
     mk_request ''10.0.0.1:4000''
       [(''Upload-Metadata'', ''filename YS50eHQ=''), (''X-Forwarded-For'', ''not-an-ip'')]"

definition req_untrusted :: request where
  "req_untrusted =
     mk_request ''1.2.3.4:5555''
       [(''Upload-Metadata'', ''filename YS50eHQ=''), (''X-Forwarded-For'', ''9.9.9.9'')]"

definition req_rs256 :: request where
  "req_rs256 =
     mk_request ''1.2.3.4:5555''
       [(''Upload-Metadata'', ''extjwt UlMyNTYua2l3aS9hbGljZS5iYWQ='')]"

definition req_unknown_issuer :: request where
  "req_unknown_issuer =
     mk_request ''1.2.3.4:5555''
       [(''Upload-Metadata'', ''extjwt SFMyNTYub3RoZXIvYWxpY2UuYmFk'')]"

definition req_bad_signature :: request where
  "req_bad_signature =
     mk_request ''1.2.3.4:5555''
       [(''Upload-Metadata'', ''extjwt SFMyNTYua2l3aS9hbGljZS5iYWQ='')]"

definition req_undecodable_signature :: request where
  "req_undecodable_signature =
     mk_request ''1.2.3.4:5555''
       [(''Upload-Metadata'', ''extjwt SFMyNTYua2l3aS9hbGljZS4hISE='')]"

definition req_no_account :: request where
  "req_no_account =
     mk_request ''1.2.3.4:5555''
       [(''Upload-Metadata'', ''extjwt SFMyNTYua2l3aS5pd2lrNjUyU0h0ZXJjM3M='')]"

definition after_address :: "request \<Rightarrow> request" where
  \<comment> \<open>the request as \<open>addRemoteIPToMetadata\<close> leaves it\<close>
  "after_address req = fst (snd (addRemoteIPToMetadata ipv4_env demo_serv req))"

definition mk_event :: "HookType \<Rightarrow> string \<Rightarrow> metadata \<Rightarrow> TusEvent" where
  "mk_event t upload_id meta = \<lparr>Type = t, Info = \<lparr>ID = upload_id, MetaData = meta\<rparr>\<rparr>"

section \<open>Properties of the resolver and of the address step\<close>

lemma rangeRemoteIP_iff:
  "rangeRemoteIP ks =
     (if remoteIPKey \<in> set ks
      then Some (Errorf ''Metadata field RemoteIP cannot be set by client'' []) else None)"
  by (induction ks) (simp_all add: remoteIPKey_def)

lemma rangeAccountIssuer_iff:
  "rangeAccountIssuer ks =
     (if ''issuer'' \<in> set ks
      then Some (Errorf ''Metadata field %#v cannot be set by client'' [Some (JString ''issuer'')])
      else None)"
  by (induction ks) simp_all

lemma Split_not_Nil: "Split s sep \<noteq> []"
  by (induction s) (simp_all split: list.splits)

lemma hd_Split: "hd (Split s sep) = takeWhile (\<lambda>c. c \<noteq> sep) s"
  by (induction s) (auto simp: Split_not_Nil split: list.splits)

lemma remoteIPisTrusted_range_iff:
  "remoteIPisTrusted_range E nets ip \<longleftrightarrow> (\<exists>n \<in> set nets. Contains E n ip)"
  by (induction nets) simp_all

lemma addRemoteIPToMetadata_forged:
  assumes "remoteIPKey \<in> set (meta_keys (parseMeta E (Header_Get (Header req) uploadMetadataHeader)))"
  shows "addRemoteIPToMetadata E serv req =
           ([], req, Some (Errorf ''Metadata field RemoteIP cannot be set by client'' []))"
  using assms by (simp add: addRemoteIPToMetadata_def rangeRemoteIP_iff)

text \<open>
  Claim C1, as the code has it. When the decoded \<open>Upload-Metadata\<close> of the request
  contains the key \<open>RemoteIP\<close>, the handler aborts with status 406 (not acceptable),
  logs nothing, and leaves the request, and so its \<open>Upload-Metadata\<close> header, as it
  was.
\<close>

theorem forged_RemoteIP_rejected_406:
  assumes "remoteIPKey \<in> set (meta_keys (parseMeta E (Header_Get (Header req) uploadMetadataHeader)))"
  shows "postFile E serv req =
           ([], req,
            AbortWithError StatusNotAcceptable
              (Errorf ''Metadata field RemoteIP cannot be set by client'' []) None)"
  by (simp add: postFile_def addRemoteIPToMetadata_forged [OF assms])

lemma resolver_trusted:
  assumes "SplitHostPort E (RemoteAddr req) = Inr (remoteIP, port)"
    and "Header_Get (Header req) ''X-Forwarded-For'' \<noteq> []"
    and "remoteIPisTrusted E serv (ParseIP E remoteIP)"
  shows "snd (getDirectOrForwardedRemoteIP E serv req) =
           (case ParseIP E (TrimSpace E (hd (Split (Header_Get (Header req) ''X-Forwarded-For'')
                                               (CHR '','')))) of
              None \<Rightarrow> Inl ErrInvalidXForwardedFor
            | Some ip \<Rightarrow> Inr (IP_String E ip))"
  using assms
  by (simp add: getDirectOrForwardedRemoteIP_def Let_def split: option.splits)

lemma postFile_resolver_error:
  assumes "snd (getDirectOrForwardedRemoteIP E serv req) = Inl ErrInvalidXForwardedFor"
  shows "status_of (snd (snd (postFile E serv req))) = Some StatusNotAcceptable"
proof (cases "remoteIPKey \<in> set (meta_keys (parseMeta E (Header_Get (Header req) uploadMetadataHeader)))")
  case True
  then show ?thesis by (simp add: postFile_def addRemoteIPToMetadata_forged)
next
  case False
  obtain logs where "getDirectOrForwardedRemoteIP E serv req = (logs, Inl ErrInvalidXForwardedFor)"
    using assms by (cases "getDirectOrForwardedRemoteIP E serv req") simp
  with False show ?thesis
    by (simp add: postFile_def addRemoteIPToMetadata_def rangeRemoteIP_iff)
qed

text \<open>
  Claim C3. When the request has a forwarded-address header and the host of the direct
  peer lies in a trusted range, the resolver returns the address parsed from the first
  comma-separated part of the header, with the white space trimmed; when that part
  does not parse, the resolver fails with \<open>ErrInvalidXForwardedFor\<close> and the request
  is answered with status 406.
\<close>

theorem trusted_proxy_forwarded_address:
  assumes "SplitHostPort E (RemoteAddr req) = Inr (remoteIP, port)"
    and "Header_Get (Header req) ''X-Forwarded-For'' \<noteq> []"
    and "remoteIPisTrusted E serv (ParseIP E remoteIP)"
  shows "snd (getDirectOrForwardedRemoteIP E serv req) =
           (case ParseIP E (TrimSpace E (hd (Split (Header_Get (Header req) ''X-Forwarded-For'')
                                               (CHR '','')))) of
              None \<Rightarrow> Inl ErrInvalidXForwardedFor
            | Some ip \<Rightarrow> Inr (IP_String E ip))
         \<and> (ParseIP E (TrimSpace E (hd (Split (Header_Get (Header req) ''X-Forwarded-For'')
                                          (CHR '','')))) = None \<longrightarrow>
              status_of (snd (snd (postFile E serv req))) = Some StatusNotAcceptable)"
proof (intro conjI impI)
  show r: "snd (getDirectOrForwardedRemoteIP E serv req) =
           (case ParseIP E (TrimSpace E (hd (Split (Header_Get (Header req) ''X-Forwarded-For'')
                                               (CHR '','')))) of
              None \<Rightarrow> Inl ErrInvalidXForwardedFor
            | Some ip \<Rightarrow> Inr (IP_String E ip))"
    using assms by (rule resolver_trusted)
  assume "ParseIP E (TrimSpace E (hd (Split (Header_Get (Header req) ''X-Forwarded-For'')
                                        (CHR '','')))) = None"
  with r have "snd (getDirectOrForwardedRemoteIP E serv req) = Inl ErrInvalidXForwardedFor"
    by simp
  then show "status_of (snd (snd (postFile E serv req))) = Some StatusNotAcceptable"
    by (rule postFile_resolver_error)
qed

text \<open>
  Claim C4. When the request has a forwarded-address header and the host of the direct
  peer lies in no trusted range, the resolver logs a warning and returns the host of
  the direct peer; the result is the one of the same request without the header.
\<close>

theorem untrusted_peer_ignores_forwarded:
  assumes "SplitHostPort E (RemoteAddr req) = Inr (remoteIP, port)"
    and "Header_Get (Header req) ''X-Forwarded-For'' \<noteq> []"
    and "\<not> remoteIPisTrusted E serv (ParseIP E remoteIP)"
  shows "getDirectOrForwardedRemoteIP E serv req =
           ([Log WarnLevel
               [Str ''X-Forwarded-For'' (Header_Get (Header req) ''X-Forwarded-For''),
                Str ''remoteIP'' remoteIP]
               ''Untrusted remote attempted to override stored IP''],
            Inr remoteIP)
         \<and> snd (getDirectOrForwardedRemoteIP E serv req) =
           snd (getDirectOrForwardedRemoteIP E serv
                  (req\<lparr>Header := (Header req)(''X-Forwarded-For'' := None)\<rparr>))"
  using assms
  by (simp add: getDirectOrForwardedRemoteIP_def Let_def Header_Get_def)

section \<open>Properties of the token step\<close>

lemma getSecretForToken_not_HMAC:
  "\<not> is_HMAC (Method token) \<Longrightarrow>
   getSecretForToken serv token =
     Inl (Errorf ''Unexpected signing method: %v'' [Token_Header token ''alg''])"
  by (cases "Method token") (simp_all add: getSecretForToken_def)

lemma getSecretForToken_not_ValidationError:
  "getSecretForToken serv token \<noteq> Inl (ValidationError inner errors)"
  by (simp add: getSecretForToken_def split: SigningMethod.splits Claims.splits option.splits json.splits)

lemma getSecretForToken_Inr:
  assumes "getSecretForToken serv token = Inr secret"
  shows "\<exists>claims issuer. Token_Claims token = MapClaims claims \<and>
           claims ''iss'' = Some (JString issuer) \<and>
           JwtSecretsByIssuer serv issuer = Some secret"
  using assms
  by (simp add: getSecretForToken_def split: SigningMethod.splits Claims.splits option.splits json.splits)

lemma jwt_Parse_keyFunc_error:
  assumes "ParseUnverified E tokenString = Inr (token, signingString, sig)"
    and "getSecretForToken serv token = Inl err"
  shows "jwt_Parse E tokenString (getSecretForToken serv) =
           Inl (ValidationError (Some err) ValidationErrorUnverifiable)"
proof -
  have "\<And>inner errors. err \<noteq> ValidationError inner errors"
    using assms(2) getSecretForToken_not_ValidationError by metis
  then show ?thesis
    using assms by (cases err) (auto simp: jwt_Parse_def)
qed

lemma jwt_Parse_Inr:
  assumes "jwt_Parse E tokenString (getSecretForToken serv) = Inr token"
  shows "Valid token \<and>
         (\<exists>claims issuer. Token_Claims token = MapClaims claims \<and>
            claims ''iss'' = Some (JString issuer) \<and>
            JwtSecretsByIssuer serv issuer \<noteq> None)"
proof -
  obtain t0 ss sig where p: "ParseUnverified E tokenString = Inr (t0, ss, sig)"
    using assms by (auto simp: jwt_Parse_def split: sum.splits)
  obtain secret where k: "getSecretForToken serv t0 = Inr secret"
    using assms p by (auto simp: jwt_Parse_def split: sum.splits go_error.splits)
  have t: "token = t0\<lparr>Signature := sig, Valid := True\<rparr>"
    using assms p k
    by (auto simp: jwt_Parse_def Let_def split: option.splits go_error.splits if_splits prod.splits)
  from getSecretForToken_Inr [OF k] t show ?thesis by auto
qed

lemma signature_flag_set: "(errors :: 32 word) OR ValidationErrorSignatureInvalid \<noteq> 0"
  by (simp add: or_eq_0_iff ValidationErrorSignatureInvalid_def)

lemma jwt_Parse_Verify_error:
  assumes "ParseUnverified E tokenString = Inr (token, signingString, sig)"
    and "getSecretForToken serv token = Inr secret"
    and "Verify E (Method token) signingString sig secret = Some verr"
  shows "\<exists>errors. jwt_Parse E tokenString (getSecretForToken serv) =
           Inl (ValidationError (Some verr) errors)"
  using assms
  by (simp add: jwt_Parse_def Let_def signature_flag_set split: option.splits go_error.splits prod.splits)

lemma postFile_after_address:
  assumes "addRemoteIPToMetadata E serv req = (logs, req1, None)"
  shows "postFile E serv req =
     (case processJwt E serv req1 of
             Panics \<Rightarrow> (logs, req1, Panicked)
           | Returns (out, req2, None) \<Rightarrow> (logs @ out, req2, HandlerPostFile)
           | Returns (out, req2, Some err) \<Rightarrow>
               (if isFatalJwtError err then
                  (case err of
                     ValidationError (Some ErrSignatureInvalid) errors \<Rightarrow>
                       (logs @ out, req2,
                        AbortWithStatusJSON StatusUnauthorized
                          (Sprintf ''Failed to process EXTJWT: %s. Configured secret may be incorrect.''
                             [err])
                          err ErrorTypePublic)
                   | _ \<Rightarrow>
                       (logs @ out, req2,
                        AbortWithError StatusBadRequest err (Some ErrorTypePublic)))
                else
                  (logs @ out @ [Log WarnLevel [Err err] ''Failed to process EXTJWT''], req2,
                   HandlerPostFile)))"
  by (simp add: postFile_def assms)

lemma processJwt_token_error:
  assumes "''issuer'' \<notin> set (meta_keys (parseMeta E (Header_Get (Header req) ''Upload-Metadata'')))"
    and "meta_get (parseMeta E (Header_Get (Header req) ''Upload-Metadata'')) ''extjwt'' = tokenString"
    and "tokenString \<noteq> []"
    and "jwt_Parse E tokenString (getSecretForToken serv) = Inl err"
  shows "processJwt E serv req = Returns ([], req, Some err)"
  using assms by (simp add: processJwt_def rangeAccountIssuer_iff Let_def)

lemma processJwt_issuer_key:
  assumes "''issuer'' \<in> set (meta_keys (parseMeta E (Header_Get (Header req) ''Upload-Metadata'')))"
  shows "processJwt E serv req =
           Returns ([], req,
             Some (Errorf ''Metadata field %#v cannot be set by client'' [Some (JString ''issuer'')]))"
  using assms by (simp add: processJwt_def rangeAccountIssuer_iff Let_def)

text \<open>
  Claim C5. For a token whose signing method is not an HMAC method, the key function
  fails with the error \<open>Unexpected signing method\<close>; the error that \<open>jwt.Parse\<close> makes
  of it is fatal, and the handler aborts with status 400, whatever else the token
  holds.
\<close>

theorem non_HMAC_rejected_400:
  assumes "addRemoteIPToMetadata E serv req = (logs, req1, None)"
    and "meta_get (parseMeta E (Header_Get (Header req1) ''Upload-Metadata'')) ''extjwt'' = tokenString"
    and "tokenString \<noteq> []"
    and "ParseUnverified E tokenString = Inr (token, signingString, sig)"
    and "\<not> is_HMAC (Method token)"
  shows "getSecretForToken serv token =
           Inl (Errorf ''Unexpected signing method: %v'' [Token_Header token ''alg''])
         \<and> isFatalJwtError
             (ValidationError (Some (Errorf ''Unexpected signing method: %v'' [Token_Header token ''alg'']))
                ValidationErrorUnverifiable)
         \<and> status_of (snd (snd (postFile E serv req))) = Some StatusBadRequest
         \<and> fst (snd (postFile E serv req)) = req1"
proof -
  let ?e = "Errorf ''Unexpected signing method: %v'' [Token_Header token ''alg'']"
  have k: "getSecretForToken serv token = Inl ?e"
    using assms(5) by (rule getSecretForToken_not_HMAC)
  have f: "isFatalJwtError (ValidationError (Some ?e) ValidationErrorUnverifiable)"
    by (simp add: isFatalJwtError_def)
  have p: "jwt_Parse E tokenString (getSecretForToken serv) =
             Inl (ValidationError (Some ?e) ValidationErrorUnverifiable)"
    using assms(4) k by (rule jwt_Parse_keyFunc_error)
  have s: "status_of (snd (snd (postFile E serv req))) = Some StatusBadRequest
           \<and> fst (snd (postFile E serv req)) = req1"
  proof (cases "''issuer'' \<in> set (meta_keys (parseMeta E (Header_Get (Header req1) ''Upload-Metadata'')))")
    case True
    then show ?thesis
      by (simp add: postFile_after_address [OF assms(1)] processJwt_issuer_key isFatalJwtError_def)
  next
    case False
    then have "processJwt E serv req1 =
        Returns ([], req1, Some (ValidationError (Some ?e) ValidationErrorUnverifiable))"
      using assms(2,3) p by (rule processJwt_token_error)
    then show ?thesis
      by (simp add: postFile_after_address [OF assms(1)] isFatalJwtError_def)
  qed
  from k f s show ?thesis by simp
qed

text \<open>
  Claim C6. For a token with an HMAC method whose \<open>iss\<close> claim names an issuer that is
  not in \<open>JwtSecretsByIssuer\<close>, \<open>processJwt\<close> returns the \<open>UnknownIssuerError\<close> wrapped
  in a \<open>ValidationError\<close> and leaves the request unchanged; the error is not fatal,
  so the handler logs a warning and hands the request to the tus handler.
\<close>

theorem unknown_issuer_proceeds:
  assumes "addRemoteIPToMetadata E serv req = (logs, req1, None)"
    and "''issuer'' \<notin> set (meta_keys (parseMeta E (Header_Get (Header req1) ''Upload-Metadata'')))"
    and "meta_get (parseMeta E (Header_Get (Header req1) ''Upload-Metadata'')) ''extjwt'' = tokenString"
    and "tokenString \<noteq> []"
    and "ParseUnverified E tokenString = Inr (token, signingString, sig)"
    and "is_HMAC (Method token)"
    and "Token_Claims token = MapClaims claims"
    and "claims ''iss'' = Some (JString issuer)"
    and "JwtSecretsByIssuer serv issuer = None"
  shows "processJwt E serv req1 =
           Returns ([], req1,
             Some (ValidationError (Some (UnknownIssuerError issuer)) ValidationErrorUnverifiable))
         \<and> \<not> isFatalJwtError
               (ValidationError (Some (UnknownIssuerError issuer)) ValidationErrorUnverifiable)
         \<and> postFile E serv req =
             (logs @ [Log WarnLevel
                        [Err (ValidationError (Some (UnknownIssuerError issuer))
                                ValidationErrorUnverifiable)]
                        ''Failed to process EXTJWT''],
              req1, HandlerPostFile)"
proof -
  let ?e = "ValidationError (Some (UnknownIssuerError issuer)) ValidationErrorUnverifiable"
  have k: "getSecretForToken serv token = Inl (UnknownIssuerError issuer)"
    using assms(6-9) by (cases "Method token") (simp_all add: getSecretForToken_def)
  have p: "jwt_Parse E tokenString (getSecretForToken serv) = Inl ?e"
    using assms(5) k by (rule jwt_Parse_keyFunc_error)
  have r: "processJwt E serv req1 = Returns ([], req1, Some ?e)"
    using assms(2-4) p by (rule processJwt_token_error)
  have f: "\<not> isFatalJwtError ?e" by (simp add: isFatalJwtError_def)
  from r f show ?thesis
    by (simp add: postFile_after_address [OF assms(1)])
qed

text \<open>
  Claim C7, as the code has it. For a token with an HMAC method whose issuer is in
  \<open>JwtSecretsByIssuer\<close> and whose signature check fails: when the check fails with
  \<open>ErrSignatureInvalid\<close> (the signature decodes and is not the one of the issuer's
  secret), the handler aborts with status 401 and a message that says the configured
  secret may be incorrect; when it fails with another error (the signature part does
  not decode), the handler aborts with status 400.
\<close>

theorem failed_signature_401_or_400:
  assumes "addRemoteIPToMetadata E serv req = (logs, req1, None)"
    and "''issuer'' \<notin> set (meta_keys (parseMeta E (Header_Get (Header req1) ''Upload-Metadata'')))"
    and "meta_get (parseMeta E (Header_Get (Header req1) ''Upload-Metadata'')) ''extjwt'' = tokenString"
    and "tokenString \<noteq> []"
    and "ParseUnverified E tokenString = Inr (token, signingString, sig)"
    and "is_HMAC (Method token)"
    and "Token_Claims token = MapClaims claims"
    and "claims ''iss'' = Some (JString issuer)"
    and "JwtSecretsByIssuer serv issuer = Some secret"
    and "Verify E (Method token) signingString sig secret = Some verr"
  shows "(verr = ErrSignatureInvalid \<longrightarrow>
            (\<exists>errors. postFile E serv req =
               (logs, req1,
                AbortWithStatusJSON StatusUnauthorized
                  (Sprintf ''Failed to process EXTJWT: %s. Configured secret may be incorrect.''
                     [ValidationError (Some ErrSignatureInvalid) errors])
                  (ValidationError (Some ErrSignatureInvalid) errors) ErrorTypePublic)))
         \<and> (verr \<noteq> ErrSignatureInvalid \<longrightarrow>
            isFatalJwtError (ValidationError (Some verr) ValidationErrorSignatureInvalid) \<longrightarrow>
            (\<exists>errors. postFile E serv req =
               (logs, req1,
                AbortWithError StatusBadRequest (ValidationError (Some verr) errors)
                  (Some ErrorTypePublic))))"
proof -
  have k: "getSecretForToken serv token = Inr secret"
    using assms(6-9) by (cases "Method token") (simp_all add: getSecretForToken_def)
  obtain errors where p: "jwt_Parse E tokenString (getSecretForToken serv) =
      Inl (ValidationError (Some verr) errors)"
    using jwt_Parse_Verify_error [OF assms(5) k assms(10)] by blast
  have r: "processJwt E serv req1 = Returns ([], req1, Some (ValidationError (Some verr) errors))"
    using assms(2-4) p by (rule processJwt_token_error)
  have unauthorized: "postFile E serv req =
               (logs, req1,
                AbortWithStatusJSON StatusUnauthorized
                  (Sprintf ''Failed to process EXTJWT: %s. Configured secret may be incorrect.''
                     [ValidationError (Some ErrSignatureInvalid) errors])
                  (ValidationError (Some ErrSignatureInvalid) errors) ErrorTypePublic)"
    if "verr = ErrSignatureInvalid"
    using that by (simp add: postFile_after_address [OF assms(1)] r isFatalJwtError_def)
  have bad_request: "postFile E serv req =
               (logs, req1,
                AbortWithError StatusBadRequest (ValidationError (Some verr) errors)
                  (Some ErrorTypePublic))"
    if "verr \<noteq> ErrSignatureInvalid"
      and "isFatalJwtError (ValidationError (Some verr) ValidationErrorSignatureInvalid)"
    using that
    by (cases verr) (simp_all add: postFile_after_address [OF assms(1)] r isFatalJwtError_def)
  show ?thesis
    using unauthorized bad_request by blast
qed

text \<open>
  Claim C9. For a token that \<open>jwt.Parse\<close> accepts and whose \<open>account\<close> claim is absent
  or not a string, \<open>processJwt\<close> returns without an error, without output, and with
  the request unchanged: the issuer is not written to the metadata alone.
\<close>

theorem no_account_no_injection:
  assumes "''issuer'' \<notin> set (meta_keys (parseMeta E (Header_Get (Header req) ''Upload-Metadata'')))"
    and "meta_get (parseMeta E (Header_Get (Header req) ''Upload-Metadata'')) ''extjwt'' = tokenString"
    and "tokenString \<noteq> []"
    and "jwt_Parse E tokenString (getSecretForToken serv) = Inr token"
    and "Token_Claims token = MapClaims claims"
    and "\<not> is_JString (claims ''account'')"
  shows "processJwt E serv req = Returns ([], req, None)"
proof -
  from jwt_Parse_Inr [OF assms(4)] assms(5)
  obtain issuer where v: "Valid token" and i: "claims ''iss'' = Some (JString issuer)"
    by auto
  have a: "\<And>account. claims ''account'' \<noteq> Some (JString account)"
    using assms(6) by (metis is_JString.simps(1))
  show ?thesis
    using assms(1-5) v i a
    by (simp add: processJwt_def rangeAccountIssuer_iff Let_def split: option.splits json.splits)
qed

lemma processJwt_no_panic: "processJwt E serv req \<noteq> Panics"
proof (cases "jwt_Parse E (meta_get (parseMeta E (Header_Get (Header req) ''Upload-Metadata'')) ''extjwt'') (getSecretForToken serv)")
  case (Inl err)
  then show ?thesis
    by (simp add: processJwt_def Let_def split: option.splits)
next
  case (Inr token)
  from jwt_Parse_Inr [OF Inr] show ?thesis
    using Inr by (auto simp: processJwt_def Let_def split: option.splits json.splits Claims.splits)
qed

section \<open>Properties of the recorder\<close>

lemma ipRecorder_filter:
  "ipRecorder UpdateRow st channel =
   ipRecorder UpdateRow st (filter (\<lambda>e. Type e = HookPostCreate) channel)"
  by (induction channel arbitrary: st) simp_all

text \<open>
  Claim C8. The recorder writes to the database at events of type \<open>HookPostCreate\<close>
  only: its run over a channel is its run over the creation events of the channel,
  and an event of another type (progress, completion, termination) changes neither
  the database nor the log, wherever it arrives.
\<close>

theorem recorder_writes_on_Created_only:
  assumes "Type event \<noteq> HookPostCreate"
  shows "ipRecorder UpdateRow st channel =
           ipRecorder UpdateRow st (filter (\<lambda>e. Type e = HookPostCreate) channel)
         \<and> ipRecorder UpdateRow st (before @ event # later) =
           ipRecorder UpdateRow st (before @ later)
         \<and> ipRecorder UpdateRow st [event] = st"
proof -
  have "ipRecorder UpdateRow st (before @ event # later) =
        ipRecorder UpdateRow st (filter (\<lambda>e. Type e = HookPostCreate) (before @ event # later))"
    by (rule ipRecorder_filter)
  also have "\<dots> = ipRecorder UpdateRow st (filter (\<lambda>e. Type e = HookPostCreate) (before @ later))"
    using assms by simp
  also have "\<dots> = ipRecorder UpdateRow st (before @ later)"
    by (rule ipRecorder_filter [symmetric])
  finally show ?thesis
    using assms ipRecorder_filter [of UpdateRow st channel] by simp
qed

lemma meta_get_missing: "k \<notin> set (meta_keys m) \<Longrightarrow> meta_get m k = []"
  by (simp add: meta_get_def meta_keys_def map_of_eq_None_iff [THEN iffD2])

lemma ipRecorder_append:
  "ipRecorder UpdateRow st (before @ later) =
   ipRecorder UpdateRow (ipRecorder UpdateRow st before) later"
  by (induction before arbitrary: st) simp_all

text \<open>
  Claim C10. At a creation event whose metadata has no key \<open>RemoteIP\<close>, wherever it
  arrives in the channel, the recorder still calls \<open>UpdateRow\<close>, on the database as
  the events before have left it, with the empty string as the address and the ID of
  the upload; the events after it are handled from the state this write leaves.
\<close>

theorem missing_RemoteIP_recorded_empty:
  assumes "Type event = HookPostCreate"
    and "''RemoteIP'' \<notin> set (meta_keys (MetaData (Info event)))"
  shows "fst (ipRecorder UpdateRow st (before @ [event])) =
           fst (UpdateRow (fst (ipRecorder UpdateRow st before)) uploaderIPQuery
                  [[], ID (Info event)])
         \<and> ipRecorder UpdateRow st (before @ event # later) =
             ipRecorder UpdateRow (ipRecorder UpdateRow st (before @ [event])) later"
proof
  show "fst (ipRecorder UpdateRow st (before @ [event])) =
           fst (UpdateRow (fst (ipRecorder UpdateRow st before)) uploaderIPQuery
                  [[], ID (Info event)])"
    using assms
    by (simp add: ipRecorder_append recordUploaderIP_def Let_def meta_get_missing
        split: prod.splits option.splits)
  have "before @ event # later = (before @ [event]) @ later"
    by simp
  then show "ipRecorder UpdateRow st (before @ event # later) =
             ipRecorder UpdateRow (ipRecorder UpdateRow st (before @ [event])) later"
    by (simp only: ipRecorder_append)
qed

section \<open>The handler and the recorder on concrete input\<close>

lemma triple_collapse: "snd (snd x) = c \<Longrightarrow> x = (fst x, fst (snd x), c)"
  by (cases x) auto

text \<open>
  The request with the metadata \<open>RemoteIP=1.1.1.1\<close> from \<open>1.2.3.4:5555\<close> is answered
  with 406 and comes back as it was.
\<close>

theorem forged_RemoteIP_rejected_406_witness:
  "remoteIPKey \<in> set (meta_keys (parseMeta ipv4_env
                                    (Header_Get (Header req_forged_ip) uploadMetadataHeader)))
   \<and> postFile ipv4_env demo_serv req_forged_ip =
       ([], req_forged_ip,
        AbortWithError StatusNotAcceptable
          (Errorf ''Metadata field RemoteIP cannot be set by client'' []) None)"
proof -
  have h: "remoteIPKey \<in> set (meta_keys (parseMeta ipv4_env
                                    (Header_Get (Header req_forged_ip) uploadMetadataHeader)))"
    by code_simp
  show ?thesis
    using h forged_RemoteIP_rejected_406 [OF h, of demo_serv] by simp
qed

text \<open>
  Claim C1 as the spec has it, with status 400, fails at that request.
\<close>

theorem forged_RemoteIP_not_400:
  "remoteIPKey \<in> set (meta_keys (parseMeta ipv4_env
                                    (Header_Get (Header req_forged_ip) uploadMetadataHeader)))
   \<and> status_of (snd (snd (postFile ipv4_env demo_serv req_forged_ip))) \<noteq> Some StatusBadRequest"
  by code_simp

text \<open>
  Claim C2. A request whose decoded \<open>Upload-Metadata\<close> has the key \<open>account\<close> or the
  key \<open>issuer\<close> is to be answered with status 400. The loop of \<open>processJwt\<close> returns
  its error at the key \<open>issuer\<close> only (lemma \<open>rangeAccountIssuer_iff\<close>): the request
  with the metadata \<open>account=admin\<close> and no token is not answered with 400 but handed
  to the tus handler, and the metadata it then carries still has the client's
  account, beside the address the server added.
\<close>

theorem forged_account_reaches_handler:
  "''account'' \<in> set (meta_keys (parseMeta ipv4_env
                                    (Header_Get (Header req_forged_account) ''Upload-Metadata'')))
   \<and> snd (snd (postFile ipv4_env demo_serv req_forged_account)) = HandlerPostFile
   \<and> status_of (snd (snd (postFile ipv4_env demo_serv req_forged_account))) \<noteq> Some StatusBadRequest
   \<and> parseMeta ipv4_env
        (Header_Get (Header (fst (snd (postFile ipv4_env demo_serv req_forged_account))))
           ''Upload-Metadata'') =
       [(''account'', ''admin''), (''RemoteIP'', ''1.2.3.4'')]"
  by code_simp

text \<open>
  Behind the trusted proxy \<open>10.0.0.1\<close>, the header \<open>not-an-ip\<close> is answered with 406
  and the header \<open>9.9.9.9, 8.8.8.8\<close> resolves to \<open>9.9.9.9\<close>.
\<close>

theorem trusted_proxy_forwarded_address_witness:
  "SplitHostPort ipv4_env (RemoteAddr req_proxied_garbage) = Inr (''10.0.0.1'', ''4000'')
   \<and> Header_Get (Header req_proxied_garbage) ''X-Forwarded-For'' \<noteq> []
   \<and> remoteIPisTrusted ipv4_env demo_serv (ParseIP ipv4_env ''10.0.0.1'')
   \<and> ParseIP ipv4_env (TrimSpace ipv4_env
        (hd (Split (Header_Get (Header req_proxied_garbage) ''X-Forwarded-For'') (CHR '','')))) = None
   \<and> snd (getDirectOrForwardedRemoteIP ipv4_env demo_serv req_proxied_garbage) =
       Inl ErrInvalidXForwardedFor
   \<and> status_of (snd (snd (postFile ipv4_env demo_serv req_proxied_garbage))) =
       Some StatusNotAcceptable
   \<and> snd (getDirectOrForwardedRemoteIP ipv4_env demo_serv req_proxied) = Inr ''9.9.9.9''"
proof -
  have a: "SplitHostPort ipv4_env (RemoteAddr req_proxied_garbage) = Inr (''10.0.0.1'', ''4000'')"
    by code_simp
  have b: "Header_Get (Header req_proxied_garbage) ''X-Forwarded-For'' \<noteq> []"
    by code_simp
  have c: "remoteIPisTrusted ipv4_env demo_serv (ParseIP ipv4_env ''10.0.0.1'')"
    by code_simp
  have d: "ParseIP ipv4_env (TrimSpace ipv4_env
        (hd (Split (Header_Get (Header req_proxied_garbage) ''X-Forwarded-For'') (CHR '','')))) = None"
    by code_simp
  have a': "SplitHostPort ipv4_env (RemoteAddr req_proxied) = Inr (''10.0.0.1'', ''4000'')"
    by code_simp
  have b': "Header_Get (Header req_proxied) ''X-Forwarded-For'' \<noteq> []"
    by code_simp
  have d': "ParseIP ipv4_env (TrimSpace ipv4_env
        (hd (Split (Header_Get (Header req_proxied) ''X-Forwarded-For'') (CHR '','')))) = Some [9, 9, 9, 9]"
    by code_simp
  have e': "IP_String ipv4_env [9, 9, 9, 9] = ''9.9.9.9''"
    by code_simp
  show ?thesis
    using a b c d trusted_proxy_forwarded_address [OF a b c]
      trusted_proxy_forwarded_address [OF a' b' c] d' e'
    by simp
qed

text \<open>
  From the untrusted peer \<open>1.2.3.4\<close>, the header \<open>9.9.9.9\<close> is ignored with a warning.
\<close>

theorem untrusted_peer_ignores_forwarded_witness:
  "SplitHostPort ipv4_env (RemoteAddr req_untrusted) = Inr (''1.2.3.4'', ''5555'')
   \<and> Header_Get (Header req_untrusted) ''X-Forwarded-For'' = ''9.9.9.9''
   \<and> \<not> remoteIPisTrusted ipv4_env demo_serv (ParseIP ipv4_env ''1.2.3.4'')
   \<and> getDirectOrForwardedRemoteIP ipv4_env demo_serv req_untrusted =
       ([Log WarnLevel [Str ''X-Forwarded-For'' ''9.9.9.9'', Str ''remoteIP'' ''1.2.3.4'']
           ''Untrusted remote attempted to override stored IP''],
        Inr ''1.2.3.4'')"
proof -
  have a: "SplitHostPort ipv4_env (RemoteAddr req_untrusted) = Inr (''1.2.3.4'', ''5555'')"
    by code_simp
  have b: "Header_Get (Header req_untrusted) ''X-Forwarded-For'' = ''9.9.9.9''"
    by code_simp
  have b': "Header_Get (Header req_untrusted) ''X-Forwarded-For'' \<noteq> []"
    by code_simp
  have c: "\<not> remoteIPisTrusted ipv4_env demo_serv (ParseIP ipv4_env ''1.2.3.4'')"
    by code_simp
  show ?thesis
    using a b c untrusted_peer_ignores_forwarded [OF a b' c] by simp
qed

lemma after_address_eq:
  "snd (snd (addRemoteIPToMetadata ipv4_env demo_serv req)) = None \<Longrightarrow>
   addRemoteIPToMetadata ipv4_env demo_serv req =
     (fst (addRemoteIPToMetadata ipv4_env demo_serv req), after_address req, None)"
  unfolding after_address_def by (rule triple_collapse)

lemma ParseUnverified_rs256:
  "ParseUnverified ipv4_env ''RS256.kiwi/alice.bad'' =
     Inr (clear_token (SigningMethodRSA ''RS256'') ''RS256'' ''kiwi/alice'', ''RS256.kiwi/alice'', ''bad'')"
  by (simp add: ipv4_env_def clear_ParseUnverified_def clear_method_def)

text \<open>
  A token that declares \<open>RS256\<close> is answered with 400.
\<close>

theorem non_HMAC_rejected_400_witness:
  "snd (snd (addRemoteIPToMetadata ipv4_env demo_serv req_rs256)) = None
   \<and> meta_get (parseMeta ipv4_env (Header_Get (Header (after_address req_rs256)) ''Upload-Metadata''))
        ''extjwt'' = ''RS256.kiwi/alice.bad''
   \<and> \<not> is_HMAC (Method (clear_token (SigningMethodRSA ''RS256'') ''RS256'' ''kiwi/alice''))
   \<and> getSecretForToken demo_serv (clear_token (SigningMethodRSA ''RS256'') ''RS256'' ''kiwi/alice'') =
       Inl (Errorf ''Unexpected signing method: %v'' [Some (JString ''RS256'')])
   \<and> status_of (snd (snd (postFile ipv4_env demo_serv req_rs256))) = Some StatusBadRequest"
proof -
  have a: "snd (snd (addRemoteIPToMetadata ipv4_env demo_serv req_rs256)) = None"
    by code_simp
  have b: "meta_get (parseMeta ipv4_env (Header_Get (Header (after_address req_rs256)) ''Upload-Metadata''))
        ''extjwt'' = ''RS256.kiwi/alice.bad''"
    by code_simp
  have c: "''RS256.kiwi/alice.bad'' \<noteq> []" by simp
  have e: "\<not> is_HMAC (Method (clear_token (SigningMethodRSA ''RS256'') ''RS256'' ''kiwi/alice''))"
    by (simp add: clear_token_def)
  have f: "Token_Header (clear_token (SigningMethodRSA ''RS256'') ''RS256'' ''kiwi/alice'') ''alg'' =
             Some (JString ''RS256'')"
    by (simp add: clear_token_def)
  show ?thesis
    using a b e f
      non_HMAC_rejected_400 [OF after_address_eq [OF a] b c ParseUnverified_rs256 e]
    by simp
qed


lemma ParseUnverified_other:
  "ParseUnverified ipv4_env ''HS256.other/alice.bad'' =
     Inr (clear_token (SigningMethodHMAC ''HS256'') ''HS256'' ''other/alice'',
          ''HS256.other/alice'', ''bad'')"
  by (simp add: ipv4_env_def clear_ParseUnverified_def clear_method_def)

lemma ParseUnverified_kiwi:
  "ParseUnverified ipv4_env ''HS256.kiwi/alice.bad'' =
     Inr (clear_token (SigningMethodHMAC ''HS256'') ''HS256'' ''kiwi/alice'',
          ''HS256.kiwi/alice'', ''bad'')"
  by (simp add: ipv4_env_def clear_ParseUnverified_def clear_method_def)

text \<open>
  A token of the issuer \<open>other\<close>, which the server does not know, goes through with a
  warning.
\<close>

theorem unknown_issuer_proceeds_witness:
  "snd (snd (addRemoteIPToMetadata ipv4_env demo_serv req_unknown_issuer)) = None
   \<and> ''issuer'' \<notin> set (meta_keys (parseMeta ipv4_env
          (Header_Get (Header (after_address req_unknown_issuer)) ''Upload-Metadata'')))
   \<and> meta_get (parseMeta ipv4_env
          (Header_Get (Header (after_address req_unknown_issuer)) ''Upload-Metadata''))
        ''extjwt'' = ''HS256.other/alice.bad''
   \<and> clear_claims ''other/alice'' ''iss'' = Some (JString ''other'')
   \<and> JwtSecretsByIssuer demo_serv ''other'' = None
   \<and> postFile ipv4_env demo_serv req_unknown_issuer =
       (fst (addRemoteIPToMetadata ipv4_env demo_serv req_unknown_issuer) @
        [Log WarnLevel
           [Err (ValidationError (Some (UnknownIssuerError ''other'')) ValidationErrorUnverifiable)]
           ''Failed to process EXTJWT''],
        after_address req_unknown_issuer, HandlerPostFile)"
proof -
  have a: "snd (snd (addRemoteIPToMetadata ipv4_env demo_serv req_unknown_issuer)) = None"
    by code_simp
  have i: "''issuer'' \<notin> set (meta_keys (parseMeta ipv4_env
          (Header_Get (Header (after_address req_unknown_issuer)) ''Upload-Metadata'')))"
    by code_simp
  have b: "meta_get (parseMeta ipv4_env
          (Header_Get (Header (after_address req_unknown_issuer)) ''Upload-Metadata''))
        ''extjwt'' = ''HS256.other/alice.bad''"
    by code_simp
  have c: "''HS256.other/alice.bad'' \<noteq> []" by simp
  have m: "is_HMAC (Method (clear_token (SigningMethodHMAC ''HS256'') ''HS256'' ''other/alice''))"
    by (simp add: clear_token_def)
  have t: "Token_Claims (clear_token (SigningMethodHMAC ''HS256'') ''HS256'' ''other/alice'') =
             MapClaims (clear_claims ''other/alice'')"
    by (simp add: clear_token_def)
  have s: "clear_claims ''other/alice'' ''iss'' = Some (JString ''other'')"
    by (simp add: clear_claims_def)
  have r: "JwtSecretsByIssuer demo_serv ''other'' = None"
    by (simp add: demo_serv_def)
  show ?thesis
    using a i b s r
      unknown_issuer_proceeds [OF after_address_eq [OF a] i b c ParseUnverified_other m t s r]
    by simp
qed

lemma ParseUnverified_undecodable:
  "ParseUnverified ipv4_env ''HS256.kiwi/alice.!!!'' =
     Inr (clear_token (SigningMethodHMAC ''HS256'') ''HS256'' ''kiwi/alice'',
          ''HS256.kiwi/alice'', ''!!!'')"
  by (simp add: ipv4_env_def clear_ParseUnverified_def clear_method_def)

text \<open>
  A token of the issuer \<open>kiwi\<close> with the signature \<open>bad\<close> is answered with 401, and
  one with the signature \<open>!!!\<close>, which does not decode, with 400.
\<close>

theorem failed_signature_401_or_400_witness:
  "snd (snd (addRemoteIPToMetadata ipv4_env demo_serv req_bad_signature)) = None
   \<and> ''issuer'' \<notin> set (meta_keys (parseMeta ipv4_env
          (Header_Get (Header (after_address req_bad_signature)) ''Upload-Metadata'')))
   \<and> meta_get (parseMeta ipv4_env
          (Header_Get (Header (after_address req_bad_signature)) ''Upload-Metadata''))
        ''extjwt'' = ''HS256.kiwi/alice.bad''
   \<and> JwtSecretsByIssuer demo_serv ''kiwi'' = Some ''s3cret''
   \<and> Verify ipv4_env (SigningMethodHMAC ''HS256'') ''HS256.kiwi/alice'' ''bad'' ''s3cret'' =
       Some ErrSignatureInvalid
   \<and> status_of (snd (snd (postFile ipv4_env demo_serv req_bad_signature))) =
       Some StatusUnauthorized
   \<and> snd (snd (addRemoteIPToMetadata ipv4_env demo_serv req_undecodable_signature)) = None
   \<and> ''issuer'' \<notin> set (meta_keys (parseMeta ipv4_env
          (Header_Get (Header (after_address req_undecodable_signature)) ''Upload-Metadata'')))
   \<and> meta_get (parseMeta ipv4_env
          (Header_Get (Header (after_address req_undecodable_signature)) ''Upload-Metadata''))
        ''extjwt'' = ''HS256.kiwi/alice.!!!''
   \<and> Verify ipv4_env (SigningMethodHMAC ''HS256'') ''HS256.kiwi/alice'' ''!!!'' ''s3cret'' =
       Some (OtherError ''illegal base64 data'')
   \<and> OtherError ''illegal base64 data'' \<noteq> ErrSignatureInvalid
   \<and> isFatalJwtError (ValidationError (Some (OtherError ''illegal base64 data''))
                         ValidationErrorSignatureInvalid)
   \<and> status_of (snd (snd (postFile ipv4_env demo_serv req_undecodable_signature))) =
       Some StatusBadRequest"
proof -
  have a1: "snd (snd (addRemoteIPToMetadata ipv4_env demo_serv req_bad_signature)) = None"
    by code_simp
  have i1: "''issuer'' \<notin> set (meta_keys (parseMeta ipv4_env
          (Header_Get (Header (after_address req_bad_signature)) ''Upload-Metadata'')))"
    by code_simp
  have b1: "meta_get (parseMeta ipv4_env
          (Header_Get (Header (after_address req_bad_signature)) ''Upload-Metadata''))
        ''extjwt'' = ''HS256.kiwi/alice.bad''"
    by code_simp
  have c1: "''HS256.kiwi/alice.bad'' \<noteq> []" by simp
  have a2: "snd (snd (addRemoteIPToMetadata ipv4_env demo_serv req_undecodable_signature)) = None"
    by code_simp
  have i2: "''issuer'' \<notin> set (meta_keys (parseMeta ipv4_env
          (Header_Get (Header (after_address req_undecodable_signature)) ''Upload-Metadata'')))"
    by code_simp
  have b2: "meta_get (parseMeta ipv4_env
          (Header_Get (Header (after_address req_undecodable_signature)) ''Upload-Metadata''))
        ''extjwt'' = ''HS256.kiwi/alice.!!!''"
    by code_simp
  have c2: "''HS256.kiwi/alice.!!!'' \<noteq> []" by simp
  have m: "is_HMAC (Method (clear_token (SigningMethodHMAC ''HS256'') ''HS256'' ''kiwi/alice''))"
    by (simp add: clear_token_def)
  have t: "Token_Claims (clear_token (SigningMethodHMAC ''HS256'') ''HS256'' ''kiwi/alice'') =
             MapClaims (clear_claims ''kiwi/alice'')"
    by (simp add: clear_token_def)
  have s: "clear_claims ''kiwi/alice'' ''iss'' = Some (JString ''kiwi'')"
    by (simp add: clear_claims_def)
  have r: "JwtSecretsByIssuer demo_serv ''kiwi'' = Some ''s3cret''"
    by (simp add: demo_serv_def)
  have v1: "Verify ipv4_env (SigningMethodHMAC ''HS256'') ''HS256.kiwi/alice'' ''bad'' ''s3cret'' =
       Some ErrSignatureInvalid"
    by code_simp
  have v1': "Verify ipv4_env
              (Method (clear_token (SigningMethodHMAC ''HS256'') ''HS256'' ''kiwi/alice''))
              ''HS256.kiwi/alice'' ''bad'' ''s3cret'' = Some ErrSignatureInvalid"
    using v1 by (simp add: clear_token_def)
  have v2: "Verify ipv4_env (SigningMethodHMAC ''HS256'') ''HS256.kiwi/alice'' ''!!!'' ''s3cret'' =
       Some (OtherError ''illegal base64 data'')"
    by code_simp
  have v2': "Verify ipv4_env
              (Method (clear_token (SigningMethodHMAC ''HS256'') ''HS256'' ''kiwi/alice''))
              ''HS256.kiwi/alice'' ''!!!'' ''s3cret'' = Some (OtherError ''illegal base64 data'')"
    using v2 by (simp add: clear_token_def)
  have f: "isFatalJwtError (ValidationError (Some (OtherError ''illegal base64 data''))
                              ValidationErrorSignatureInvalid)"
    by (simp add: isFatalJwtError_def)
  have u: "status_of (snd (snd (postFile ipv4_env demo_serv req_bad_signature))) =
             Some StatusUnauthorized"
    using failed_signature_401_or_400
            [OF after_address_eq [OF a1] i1 b1 c1 ParseUnverified_kiwi m t s r v1']
    by auto
  have d: "status_of (snd (snd (postFile ipv4_env demo_serv req_undecodable_signature))) =
             Some StatusBadRequest"
    using f failed_signature_401_or_400
            [OF after_address_eq [OF a2] i2 b2 c2 ParseUnverified_undecodable m t s r v2']
    by auto
  show ?thesis
    using a1 i1 b1 r v1 u a2 i2 b2 v2 f d by simp
qed

text \<open>
  Claim C7 as the spec has it, with status 401 for every signature that does not
  verify, fails at the token \<open>HS256.kiwi/alice.!!!\<close>: its issuer is known, its signature
  is refused, and the answer is 400.
\<close>

theorem undecodable_signature_not_401:
  "JwtSecretsByIssuer demo_serv ''kiwi'' = Some ''s3cret''
   \<and> meta_get (parseMeta ipv4_env
          (Header_Get (Header (after_address req_undecodable_signature)) ''Upload-Metadata''))
        ''extjwt'' = ''HS256.kiwi/alice.!!!''
   \<and> Verify ipv4_env (SigningMethodHMAC ''HS256'') ''HS256.kiwi/alice'' ''!!!'' ''s3cret'' \<noteq> None
   \<and> status_of (snd (snd (postFile ipv4_env demo_serv req_undecodable_signature))) =
       Some StatusBadRequest
   \<and> status_of (snd (snd (postFile ipv4_env demo_serv req_undecodable_signature))) \<noteq>
       Some StatusUnauthorized"
  by code_simp

text \<open>
  A token of the issuer \<open>kiwi\<close>, rightly signed and without an account, leaves the
  request as the address step made it.
\<close>

theorem no_account_no_injection_witness:
  "''issuer'' \<notin> set (meta_keys (parseMeta ipv4_env
          (Header_Get (Header (after_address req_no_account)) ''Upload-Metadata'')))
   \<and> meta_get (parseMeta ipv4_env
          (Header_Get (Header (after_address req_no_account)) ''Upload-Metadata''))
        ''extjwt'' = ''HS256.kiwi.iwik652SHterc3s''
   \<and> jwt_Parse ipv4_env ''HS256.kiwi.iwik652SHterc3s'' (getSecretForToken demo_serv) =
       Inr ((clear_token (SigningMethodHMAC ''HS256'') ''HS256'' ''kiwi'')
              \<lparr>Signature := ''iwik652SHterc3s'', Valid := True\<rparr>)
   \<and> \<not> is_JString (clear_claims ''kiwi'' ''account'')
   \<and> processJwt ipv4_env demo_serv (after_address req_no_account) =
       Returns ([], after_address req_no_account, None)"
proof -
  have i: "''issuer'' \<notin> set (meta_keys (parseMeta ipv4_env
          (Header_Get (Header (after_address req_no_account)) ''Upload-Metadata'')))"
    by code_simp
  have b: "meta_get (parseMeta ipv4_env
          (Header_Get (Header (after_address req_no_account)) ''Upload-Metadata''))
        ''extjwt'' = ''HS256.kiwi.iwik652SHterc3s''"
    by code_simp
  have c: "''HS256.kiwi.iwik652SHterc3s'' \<noteq> []" by simp
  have q: "is_base64url ''iwik652SHterc3s''"
    by code_simp
  have p: "jwt_Parse ipv4_env ''HS256.kiwi.iwik652SHterc3s'' (getSecretForToken demo_serv) =
       Inr ((clear_token (SigningMethodHMAC ''HS256'') ''HS256'' ''kiwi'')
              \<lparr>Signature := ''iwik652SHterc3s'', Valid := True\<rparr>)"
    by (simp add: q jwt_Parse_def ipv4_env_def clear_ParseUnverified_def clear_method_def
        getSecretForToken_def clear_token_def clear_claims_def demo_serv_def clear_Verify_def)
  have t: "Token_Claims ((clear_token (SigningMethodHMAC ''HS256'') ''HS256'' ''kiwi'')
              \<lparr>Signature := ''iwik652SHterc3s'', Valid := True\<rparr>) =
             MapClaims (clear_claims ''kiwi'')"
    by (simp add: clear_token_def)
  have n: "\<not> is_JString (clear_claims ''kiwi'' ''account'')"
    by (simp add: clear_claims_def)
  show ?thesis
    using i b p n no_account_no_injection [OF i b c p t n] by simp
qed

text \<open>
  After the creation of upload \<open>u1\<close> from \<open>9.9.9.9\<close>, the event of its completion,
  even with another address in its metadata, leaves the stored address alone.
\<close>

theorem recorder_writes_on_Created_only_witness:
  "Type (mk_event HookPostFinish ''u1'' [(''RemoteIP'', ''6.6.6.6'')]) \<noteq> HookPostCreate
   \<and> ipRecorder spec_UpdateRow ([(''u1'', [])], [])
        [mk_event HookPostCreate ''u1'' [(''RemoteIP'', ''9.9.9.9'')],
         mk_event HookPostFinish ''u1'' [(''RemoteIP'', ''6.6.6.6'')]] =
       ipRecorder spec_UpdateRow ([(''u1'', [])], [])
        [mk_event HookPostCreate ''u1'' [(''RemoteIP'', ''9.9.9.9'')]]
   \<and> fst (ipRecorder spec_UpdateRow ([(''u1'', [])], [])
        [mk_event HookPostCreate ''u1'' [(''RemoteIP'', ''9.9.9.9'')]]) = [(''u1'', ''9.9.9.9'')]"
proof -
  have h: "Type (mk_event HookPostFinish ''u1'' [(''RemoteIP'', ''6.6.6.6'')]) \<noteq> HookPostCreate"
    by (simp add: mk_event_def)
  have v: "fst (ipRecorder spec_UpdateRow ([(''u1'', [])], [])
        [mk_event HookPostCreate ''u1'' [(''RemoteIP'', ''9.9.9.9'')]]) = [(''u1'', ''9.9.9.9'')]"
    by code_simp
  show ?thesis
    using h v
      recorder_writes_on_Created_only [OF h, of spec_UpdateRow "([(''u1'', [])], [])" "[]"
        "[mk_event HookPostCreate ''u1'' [(''RemoteIP'', ''9.9.9.9'')]]" "[]"]
    by simp
qed

text \<open>
  After the creation of \<open>u1\<close> from \<open>9.9.9.9\<close>, the creation event of \<open>u2\<close> without
  \<open>RemoteIP\<close> overwrites the stored address of \<open>u2\<close> with the empty string.
\<close>

theorem missing_RemoteIP_recorded_empty_witness:
  "Type (mk_event HookPostCreate ''u2'' [(''filename'', ''a.txt'')]) = HookPostCreate
   \<and> ''RemoteIP'' \<notin> set (meta_keys (MetaData (Info (mk_event HookPostCreate ''u2''
                                                         [(''filename'', ''a.txt'')]))))
   \<and> fst (ipRecorder spec_UpdateRow ([(''u1'', []), (''u2'', ''8.8.8.8'')], [])
            [mk_event HookPostCreate ''u1'' [(''RemoteIP'', ''9.9.9.9'')],
             mk_event HookPostCreate ''u2'' [(''filename'', ''a.txt'')]]) =
       [(''u1'', ''9.9.9.9''), (''u2'', [])]"
proof -
  have a: "Type (mk_event HookPostCreate ''u2'' [(''filename'', ''a.txt'')]) = HookPostCreate"
    by (simp add: mk_event_def)
  have b: "''RemoteIP'' \<notin> set (meta_keys (MetaData (Info (mk_event HookPostCreate ''u2''
                                                         [(''filename'', ''a.txt'')]))))"
    by (simp add: mk_event_def meta_keys_def)
  have c: "fst (ipRecorder spec_UpdateRow ([(''u1'', []), (''u2'', ''8.8.8.8'')], [])
                  [mk_event HookPostCreate ''u1'' [(''RemoteIP'', ''9.9.9.9'')]]) =
           [(''u1'', ''9.9.9.9''), (''u2'', ''8.8.8.8'')]"
    by code_simp
  have d: "fst (spec_UpdateRow [(''u1'', ''9.9.9.9''), (''u2'', ''8.8.8.8'')] uploaderIPQuery
                  [[], ID (Info (mk_event HookPostCreate ''u2'' [(''filename'', ''a.txt'')]))]) =
           [(''u1'', ''9.9.9.9''), (''u2'', [])]"
    by (simp add: spec_UpdateRow_def mk_event_def)
  show ?thesis
    using a b c d
      missing_RemoteIP_recorded_empty [OF a b, of spec_UpdateRow
        "([(''u1'', []), (''u2'', ''8.8.8.8'')], [])"
        "[mk_event HookPostCreate ''u1'' [(''RemoteIP'', ''9.9.9.9'')]]" "[]"]
    by simp
qed

end
